theory Spec2Isabelle
  imports Main
begin

section \<open>Python strings and the built-ins the program calls\<close>

text \<open>
  A Python \<open>str\<close> is a sequence of Unicode code points, so a string is a list of
  code points (natural numbers); \<open>str\<close> turns an ASCII literal into one.
\<close>

type_synonym pystr = "nat list"

definition str :: "string \<Rightarrow> pystr" where
  "str s = map of_char s"

datatype error = ValueError | ConnectionError | HTTPError nat | JSONDecodeError

text \<open>
  \<open>str.isspace\<close> on one code point, which is also what \<open>\s\<close> matches in a \<open>re\<close>
  pattern over \<open>str\<close>: the complete table of CPython.
\<close>

definition isspace :: "nat \<Rightarrow> bool" where
  "isspace c =
     ((0x09 \<le> c \<and> c \<le> 0x0D) \<or> (0x1C \<le> c \<and> c \<le> 0x20) \<or> c = 0x85 \<or> c = 0xA0 \<or>
      c = 0x1680 \<or> (0x2000 \<le> c \<and> c \<le> 0x200A) \<or> c = 0x2028 \<or> c = 0x2029 \<or>
      c = 0x202F \<or> c = 0x205F \<or> c = 0x3000)"

text \<open>
  \<open>s.split()\<close> without arguments: the maximal runs of non-whitespace code points, in
  order; \<open>cur\<close> is the token being read.
\<close>

fun split_aux :: "pystr \<Rightarrow> pystr \<Rightarrow> pystr list" where
  "split_aux cur [] = (if cur = [] then [] else [cur])"
| "split_aux cur (c # cs) =
     (if isspace c then (if cur = [] then split_aux [] cs else cur # split_aux [] cs)
      else split_aux (cur @ [c]) cs)"

definition split :: "pystr \<Rightarrow> pystr list" where
  "split s = split_aux [] s"

fun startswith :: "pystr \<Rightarrow> pystr \<Rightarrow> bool" where
  "startswith s [] = True"
| "startswith [] (p # ps) = False"
| "startswith (c # cs) (p # ps) = (c = p \<and> startswith cs ps)"

text \<open>
  The remaining string built-ins are driven by the Unicode character database and by the
  interpreter's settings, which are no part of the program: \<open>str.lower\<close>, \<open>str.upper\<close>,
  \<open>str.isdigit\<close> and \<open>int\<close> applied to a string (\<open>None\<close> where \<open>int\<close> raises
  \<open>ValueError\<close>). The program is modelled over any such built-ins \<open>B\<close>.
\<close>

record builtins =
  str_lower :: "pystr \<Rightarrow> pystr"
  str_upper :: "pystr \<Rightarrow> pystr"
  str_isdigit :: "pystr \<Rightarrow> bool"
  str_int :: "pystr \<Rightarrow> int option"

text \<open>
  The built-ins of CPython 3.11 on the strings whose code points are all below 256
  (Latin-1); they are used to run the program on concrete inputs. Upper-casing leaves
  Latin-1 at three code points. \<open>str.isdigit\<close> accepts the superscripts 0xB2, 0xB3 and
  0xB9 beside the ten decimal digits, \<open>int\<close> accepts decimal digits only, and refuses
  more than 4300 of them. On a code point from 256 on, \<open>cpython\<close> maps a letter to
  itself and knows no digit, where Python consults the full tables.
\<close>

definition lower_cp :: "nat \<Rightarrow> nat" where
  "lower_cp c =
     (if 0x41 \<le> c \<and> c \<le> 0x5A then c + 32
      else if 0xC0 \<le> c \<and> c \<le> 0xDE \<and> c \<noteq> 0xD7 then c + 32
      else c)"

definition upper_cp :: "nat \<Rightarrow> pystr" where
  "upper_cp c =
     (if 0x61 \<le> c \<and> c \<le> 0x7A then [c - 32]
      else if 0xE0 \<le> c \<and> c \<le> 0xFE \<and> c \<noteq> 0xF7 then [c - 32]
      else if c = 0xDF then [0x53, 0x53]
      else if c = 0xB5 then [0x39C]
      else if c = 0xFF then [0x178]
      else [c])"

definition isdecimal_cp :: "nat \<Rightarrow> bool" where
  "isdecimal_cp c = (0x30 \<le> c \<and> c \<le> 0x39)"

definition isdigit_cp :: "nat \<Rightarrow> bool" where
  "isdigit_cp c = (isdecimal_cp c \<or> c = 0xB2 \<or> c = 0xB3 \<or> c = 0xB9)"

definition decimal_value :: "pystr \<Rightarrow> int" where
  "decimal_value p = foldl (\<lambda>n c. 10 * n + int (c - 0x30)) 0 p"

definition cpython_int :: "pystr \<Rightarrow> int option" where
  "cpython_int p =
     (if p \<noteq> [] \<and> length p \<le> 4300 \<and> list_all isdecimal_cp p then Some (decimal_value p)
      else None)"

definition cpython :: builtins where
  "cpython =
     \<lparr> str_lower = map lower_cp,
       str_upper = (\<lambda>s. concat (map upper_cp s)),
       str_isdigit = (\<lambda>p. p \<noteq> [] \<and> list_all isdigit_cp p),
       str_int = cpython_int \<rparr>"

section \<open>AgeParser\<close>

text \<open>
  \<open>int(p)\<close>: the value, or the \<open>ValueError\<close> that \<open>int\<close> raises.
\<close>

definition py_int :: "builtins \<Rightarrow> pystr \<Rightarrow> error + int" where
  "py_int B p = (case str_int B p of None \<Rightarrow> Inl ValueError | Some n \<Rightarrow> Inr n)"

text \<open>
  \<open>parse_age_string\<close>, lines 82 to 89. \<open>parse_age_parts\<close> is the loop over the tokens:
  the first token that \<open>isdigit\<close> accepts is handed to \<open>int\<close>, whose result (or error)
  ends the function; with no such token the result is 0.
\<close>

fun parse_age_parts :: "builtins \<Rightarrow> pystr list \<Rightarrow> error + int" where
  "parse_age_parts B [] = Inr 0"
| "parse_age_parts B (p # parts) =
     (if str_isdigit B p then py_int B p else parse_age_parts B parts)"

definition parse_age_string :: "builtins \<Rightarrow> pystr \<Rightarrow> error + int" where
  "parse_age_string B age_str =
     (if age_str = [] \<or> startswith (str_lower B age_str) (str ''n/a'') then Inr 0
      else parse_age_parts B (split age_str))"

section \<open>EligibilityEvaluator: structured criteria\<close>

text \<open>
  A JSON object read with \<open>d.get(key, default)\<close> is a record of optional fields:
  \<open>None\<close> is the absent key, and \<open>dict_get\<close> supplies the default. The values are
  typed as the registry publishes them (strings and lists of strings).
\<close>

definition dict_get :: "'a option \<Rightarrow> 'a \<Rightarrow> 'a" where
  "dict_get field dflt = (case field of None \<Rightarrow> dflt | Some v \<Rightarrow> v)"

record eligibility_module =
  minimumAge :: "pystr option"
  maximumAge :: "pystr option"
  sex :: "pystr option"

text \<open>
  \<open>meets_structured_criteria\<close>, lines 92 to 112. Both bounds are parsed before any
  test, and an error of the parser leaves the function. \<open>min_age and ...\<close> tests
  \<open>min_age \<noteq> 0\<close>.
\<close>

definition meets_structured_criteria ::
    "builtins \<Rightarrow> int \<Rightarrow> pystr \<Rightarrow> eligibility_module \<Rightarrow> error + bool" where
  "meets_structured_criteria B patient_age patient_gender eligibility =
     (let min_age_str = dict_get (minimumAge eligibility) [];
          max_age_str = dict_get (maximumAge eligibility) [];
          sex_str = dict_get (sex eligibility) (str ''ALL'')
      in case parse_age_string B min_age_str of
           Inl e \<Rightarrow> Inl e
         | Inr min_age \<Rightarrow>
             (case parse_age_string B max_age_str of
                Inl e \<Rightarrow> Inl e
              | Inr max_age \<Rightarrow>
                  if min_age \<noteq> 0 \<and> patient_age < min_age then Inr False
                  else if max_age \<noteq> 0 \<and> patient_age > max_age then Inr False
                  else if sex_str = str ''FEMALE'' \<and>
                          str_upper B patient_gender \<notin> set [str ''FEMALE'', str ''F'']
                    then Inr False
                  else if sex_str = str ''MALE'' \<and>
                          str_upper B patient_gender \<notin> set [str ''MALE'', str ''M'']
                    then Inr False
                  else Inr True))"

section \<open>QueryBuilder\<close>

text \<open>
  \<open>s.replace(old, new)\<close> for a pattern \<open>old\<close> of one code point.
\<close>

fun replace :: "pystr \<Rightarrow> nat \<Rightarrow> pystr \<Rightarrow> pystr" where
  "replace [] old new = []"
| "replace (c # cs) old new = (if c = old then new @ replace cs old new else c # replace cs old new)"

text \<open>
  \<open>quote_for_essie\<close>, lines 115 to 119. \<open>re.search\<close> with the character class
  \<open>[\s(){}\[\]]\<close> finds a match exactly when some code point of \<open>s\<close> is in the class.
  0x22 is the double quote and 0x5C the backslash.
\<close>

definition in_essie_class :: "nat \<Rightarrow> bool" where
  "in_essie_class c = (isspace c \<or> c \<in> set (str ''(){}[]''))"

definition quote_for_essie :: "pystr \<Rightarrow> pystr" where
  "quote_for_essie s =
     (if list_ex in_essie_class s then
        (let safe_s = replace s 0x22 [0x5C, 0x22] in [0x22] @ safe_s @ [0x22])
      else s)"

text \<open>
  \<open>str(n)\<close> of an integer, for the f-string of \<open>format_age_essie\<close>; 0x2D is the minus sign.
\<close>

fun str_nat :: "nat \<Rightarrow> pystr" where
  "str_nat n = (if n < 10 then [0x30 + n] else str_nat (n div 10) @ [0x30 + n mod 10])"

definition str_of_int :: "int \<Rightarrow> pystr" where
  "str_of_int i = (if i < 0 then 0x2D # str_nat (nat (- i)) else str_nat (nat i))"

definition format_age_essie :: "int \<Rightarrow> pystr" where
  "format_age_essie age = str_of_int age @ str '' Years''"

fun join :: "pystr \<Rightarrow> pystr list \<Rightarrow> pystr" where
  "join sep [] = []"
| "join sep [x] = x"
| "join sep (x # y # ys) = x @ sep @ join sep (y # ys)"

section \<open>RegistryClient\<close>

record identification_module =
  nctId :: "pystr option"
  briefTitle :: "pystr option"

record conditions_module =
  conditions :: "pystr list option"

record protocol_section =
  identificationModule :: "identification_module option"
  eligibilityModule :: "eligibility_module option"
  conditionsModule :: "conditions_module option"

record study =
  protocolSection :: "protocol_section option"

record page =
  studies :: "study list option"
  nextPageToken :: "pystr option"

text \<open>
  What one \<open>requests.get\<close> brings back: no response at all (a transport error), or a
  status code with a body that is JSON or is not. A JSON body is typed as the registry
  sends it: an object with the optional keys \<open>studies\<close> and \<open>nextPageToken\<close>.
\<close>

datatype body = Malformed | Json page

datatype reply = Unreachable | Response nat body

record params =
  param_format :: pystr
  param_query_cond :: pystr
  param_filter_overallStatus :: pystr
  param_filter_advanced :: pystr
  param_fields :: pystr
  param_pageSize :: int
  param_countTotal :: pystr
  param_pageToken :: "pystr option"

record request =
  url :: pystr
  query :: params

text \<open>
  The network: \<open>replies k\<close> is what the registry answers to the request number \<open>k\<close>
  of the run, and \<open>sent\<close> lists the requests issued so far. A call of \<open>requests.get\<close>
  appends its request and reads the reply of that number.
\<close>

record net =
  replies :: "nat \<Rightarrow> reply"
  sent :: "request list"

definition requests_get :: "pystr \<Rightarrow> params \<Rightarrow> net \<Rightarrow> reply \<times> net" where
  "requests_get u ps w = (replies w (length (sent w)), w\<lparr>sent := sent w @ [\<lparr>url = u, query = ps\<rparr>]\<rparr>)"

text \<open>
  \<open>resp.raise_for_status()\<close> raises for the client and server error codes.
\<close>

definition raise_for_status :: "nat \<Rightarrow> error + unit" where
  "raise_for_status status = (if 400 \<le> status \<and> status < 600 then Inl (HTTPError status) else Inr ())"

text \<open>
  The truth value of \<open>next_token\<close>: \<open>None\<close> and the empty string are false.
\<close>

definition truthy :: "pystr option \<Rightarrow> bool" where
  "truthy t = (t \<noteq> None \<and> t \<noteq> Some [])"

definition base_url :: pystr where
  "base_url = str ''https://clinicaltrials.gov/api/v2/studies''"

text \<open>
  The \<open>while True\<close> loop of \<open>fetch_ctg_studies\<close>, lines 152 to 162, with the variables
  it changes as arguments (\<open>acc\<close> is the list \<open>studies\<close>). It has no bound: where it
  runs forever the value is \<open>None\<close>.
\<close>

partial_function (option) fetch_pages ::
    "params \<Rightarrow> pystr option \<Rightarrow> study list \<Rightarrow> net \<Rightarrow> ((error + study list) \<times> net) option" where
  "fetch_pages ps next_token acc w =
     (let ps = (if truthy next_token then ps\<lparr>param_pageToken := next_token\<rparr> else ps);
          rw = requests_get base_url ps w
      in case fst rw of
           Unreachable \<Rightarrow> Some (Inl ConnectionError, snd rw)
         | Response status b \<Rightarrow>
             (case raise_for_status status of
                Inl e \<Rightarrow> Some (Inl e, snd rw)
              | Inr u \<Rightarrow>
                  (case b of
                     Malformed \<Rightarrow> Some (Inl JSONDecodeError, snd rw)
                   | Json data \<Rightarrow>
                       (let chunk = dict_get (studies data) [];
                            acc = acc @ chunk;
                            next_token = nextPageToken data
                        in if \<not> truthy next_token then Some (Inr acc, snd rw)
                           else fetch_pages ps next_token acc (snd rw)))))"

definition query_params :: "pystr \<Rightarrow> int \<Rightarrow> pystr list \<Rightarrow> int \<Rightarrow> params" where
  "query_params condition age status_list page_size =
     (let joined_status = join (str '','') status_list;
          age_str = format_age_essie age;
          safe_condition = quote_for_essie condition;
          fields = [str ''NCTId'', str ''BriefTitle'', str ''protocolSection.eligibilityModule'',
                    str ''protocolSection.conditionsModule'']
      in \<lparr> param_format = str ''json'',
           param_query_cond = safe_condition,
           param_filter_overallStatus = joined_status,
           param_filter_advanced =
             str ''AREA[MinimumAge]RANGE[MIN, '' @ age_str @ str ''] AND AREA[MaximumAge]RANGE[''
               @ age_str @ str '', MAX]'',
           param_fields = join (str '','') fields,
           param_pageSize = page_size,
           param_countTotal = str ''true'',
           param_pageToken = None \<rparr>)"

definition fetch_ctg_studies ::
    "pystr \<Rightarrow> int \<Rightarrow> pystr list \<Rightarrow> int \<Rightarrow> net \<Rightarrow> ((error + study list) \<times> net) option" where
  "fetch_ctg_studies condition age status_list page_size w =
     fetch_pages (query_params condition age status_list page_size) None [] w"

section \<open>MatchEngine\<close>

text \<open>
  A row of the patient table. The cell \<open>CONDITION_LIST\<close> may be absent (\<open>None\<close>), a
  list of condition names, or a value that is no list, such as the NaN that the left
  join of \<open>build_patient_data\<close> leaves for a patient without conditions. \<open>AGE\<close> and
  \<open>GENDER\<close> are the values after \<open>int(...)\<close> and \<open>str(...)\<close>.
\<close>

datatype cell = PyList "pystr list" | NotAList

record patient_row =
  AGE :: int
  GENDER :: pystr
  CONDITION_LIST :: "cell option"

record match =
  trialId :: pystr
  trialName :: pystr
  eligibilityCriteriaMet :: "pystr list"

text \<open>
  The three chains \<open>st.get("protocolSection", {}).get(..., {})\<close>: an absent module is
  the empty dictionary.
\<close>

definition elig_mod :: "study \<Rightarrow> eligibility_module" where
  "elig_mod st =
     (case protocolSection st of
        None \<Rightarrow> \<lparr>minimumAge = None, maximumAge = None, sex = None\<rparr>
      | Some ps \<Rightarrow> dict_get (eligibilityModule ps) \<lparr>minimumAge = None, maximumAge = None, sex = None\<rparr>)"

definition cond_mod :: "study \<Rightarrow> conditions_module" where
  "cond_mod st =
     (case protocolSection st of
        None \<Rightarrow> \<lparr>conditions = None\<rparr>
      | Some ps \<Rightarrow> dict_get (conditionsModule ps) \<lparr>conditions = None\<rparr>)"

definition ident_mod :: "study \<Rightarrow> identification_module" where
  "ident_mod st =
     (case protocolSection st of
        None \<Rightarrow> \<lparr>nctId = None, briefTitle = None\<rparr>
      | Some ps \<Rightarrow> dict_get (identificationModule ps) \<lparr>nctId = None, briefTitle = None\<rparr>)"

text \<open>
  \<open>cond_mod.get("conditions", []) or []\<close>.
\<close>

definition trial_conditions :: "study \<Rightarrow> pystr list" where
  "trial_conditions st = dict_get (conditions (cond_mod st)) []"

text \<open>
  The inner loop, lines 193 to 197: \<open>patient_conditions_lower\<close> is a set, and the
  trial's conditions are appended to \<open>intersecting_conds\<close> one by one.
\<close>

fun intersect_loop :: "builtins \<Rightarrow> pystr set \<Rightarrow> pystr list \<Rightarrow> pystr list \<Rightarrow> pystr list" where
  "intersect_loop B patient_conditions_lower [] acc = acc"
| "intersect_loop B patient_conditions_lower (c # cs) acc =
     (if str_lower B c \<in> patient_conditions_lower
      then intersect_loop B patient_conditions_lower cs (acc @ [c])
      else intersect_loop B patient_conditions_lower cs acc)"

definition intersecting_conds :: "builtins \<Rightarrow> pystr list \<Rightarrow> pystr list \<Rightarrow> pystr list" where
  "intersecting_conds B patient_conditions trial_conds =
     intersect_loop B (set (map (str_lower B) patient_conditions)) trial_conds []"

definition make_match :: "builtins \<Rightarrow> pystr list \<Rightarrow> study \<Rightarrow> match" where
  "make_match B patient_conditions st =
     \<lparr> trialId = dict_get (nctId (ident_mod st)) [],
       trialName = dict_get (briefTitle (ident_mod st)) [],
       eligibilityCriteriaMet = intersecting_conds B patient_conditions (trial_conditions st) \<rparr>"

text \<open>
  The loop over \<open>trials_data\<close>, lines 184 to 212, with the list \<open>matched\<close> as
  accumulator. An error of \<open>meets_structured_criteria\<close> leaves the loop and the function.
\<close>

fun match_trials ::
    "builtins \<Rightarrow> int \<Rightarrow> pystr \<Rightarrow> pystr list \<Rightarrow> study list \<Rightarrow> match list \<Rightarrow> error + match list" where
  "match_trials B age gender patient_conditions [] matched = Inr matched"
| "match_trials B age gender patient_conditions (st # rest) matched =
     (case meets_structured_criteria B age gender (elig_mod st) of
        Inl e \<Rightarrow> Inl e
      | Inr ok_structured \<Rightarrow>
          if \<not> ok_structured then match_trials B age gender patient_conditions rest matched
          else if intersecting_conds B patient_conditions (trial_conditions st) = []
            then match_trials B age gender patient_conditions rest matched
          else match_trials B age gender patient_conditions rest
                 (matched @ [make_match B patient_conditions st]))"

text \<open>
  \<open>match_patient_to_trials\<close>, lines 166 to 213. The result is \<open>None\<close> where the fetch
  never returns; otherwise it is the error raised or the list returned, with the network
  as the call leaves it.
\<close>

definition default_statuses :: "pystr list" where
  "default_statuses = [str ''RECRUITING'', str ''ENROLLING_BY_INVITATION'']"

definition match_patient_to_trials ::
    "builtins \<Rightarrow> patient_row \<Rightarrow> pystr list option \<Rightarrow> net \<Rightarrow> ((error + match list) \<times> net) option" where
  "match_patient_to_trials B patient_row statuses w =
     (let statuses = dict_get statuses default_statuses;
          age = AGE patient_row;
          gender = GENDER patient_row;
          patient_conditions =
            (case dict_get (CONDITION_LIST patient_row) (PyList []) of
               PyList l \<Rightarrow> l
             | NotAList \<Rightarrow> [])
      in case patient_conditions of
           [] \<Rightarrow> Some (Inr [], w)
         | primary_condition # others \<Rightarrow>
             (case fetch_ctg_studies primary_condition age statuses 20 w of
                None \<Rightarrow> None
              | Some (Inl e, w') \<Rightarrow> Some (Inl e, w')
              | Some (Inr trials_data, w') \<Rightarrow>
                  Some (match_trials B age gender patient_conditions trials_data [], w')))"

section \<open>Notions of the specification\<close>

text \<open>
  The page that a reply delivers, if it delivers one: the status is no client or server
  error and the body is JSON.
\<close>

definition reply_page :: "reply \<Rightarrow> page option" where
  "reply_page r =
     (case r of
        Unreachable \<Rightarrow> None
      | Response status b \<Rightarrow>
          if 400 \<le> status \<and> status < 600 then None
          else (case b of Malformed \<Rightarrow> None | Json data \<Rightarrow> Some data))"

text \<open>
  The reply number \<open>k\<close> after the requests already sent delivers a page that names a
  next page (\<open>more_at\<close>), or a page that names none (\<open>last_at\<close>).
\<close>

definition more_at :: "net \<Rightarrow> nat \<Rightarrow> bool" where
  "more_at w k =
     (case reply_page (replies w (length (sent w) + k)) of
        None \<Rightarrow> False
      | Some data \<Rightarrow> truthy (nextPageToken data))"

definition last_at :: "net \<Rightarrow> nat \<Rightarrow> bool" where
  "last_at w k =
     (case reply_page (replies w (length (sent w) + k)) of
        None \<Rightarrow> False
      | Some data \<Rightarrow> \<not> truthy (nextPageToken data))"

text \<open>
  The reply number \<open>k\<close> delivers no page (\<open>failed_at\<close>), and the error that the
  request then raises.
\<close>

definition failed_at :: "net \<Rightarrow> nat \<Rightarrow> bool" where
  "failed_at w k = (reply_page (replies w (length (sent w) + k)) = None)"

definition reply_error :: "reply \<Rightarrow> error" where
  "reply_error r =
     (case r of
        Unreachable \<Rightarrow> ConnectionError
      | Response status b \<Rightarrow>
          if 400 \<le> status \<and> status < 600 then HTTPError status else JSONDecodeError)"

definition page_at :: "net \<Rightarrow> nat \<Rightarrow> page" where
  "page_at w k = the (reply_page (replies w (length (sent w) + k)))"

text \<open>
  The requests of a fetch that reads the pages 0 to \<open>n\<close>: the first without a page token,
  each later one with the token of the page before it.
\<close>

definition page_requests :: "params \<Rightarrow> net \<Rightarrow> nat \<Rightarrow> request list" where
  "page_requests ps w n =
     \<lparr>url = base_url, query = ps\<rparr> #
     map (\<lambda>k. \<lparr>url = base_url, query = ps\<lparr>param_pageToken := nextPageToken (page_at w k)\<rparr>\<rparr>) [0..<n]"

text \<open>
  The studies of the pages 0 to \<open>n\<close>, in order.
\<close>

definition pages_studies :: "net \<Rightarrow> nat \<Rightarrow> study list" where
  "pages_studies w n = concat (map (\<lambda>k. dict_get (studies (page_at w k)) []) [0..<Suc n])"

text \<open>
  The double quote of a string escaped, as the specification words it.
\<close>

definition escape_quotes :: "pystr \<Rightarrow> pystr" where
  "escape_quotes s = concat (map (\<lambda>c. if c = 0x22 then [0x5C, 0x22] else [c]) s)"

text \<open>
  A trial yields a match: the structured criteria hold and some condition overlaps.
\<close>

definition is_match :: "builtins \<Rightarrow> int \<Rightarrow> pystr \<Rightarrow> pystr list \<Rightarrow> study \<Rightarrow> bool" where
  "is_match B age gender patient_conditions st =
     (meets_structured_criteria B age gender (elig_mod st) = Inr True \<and>
      intersecting_conds B patient_conditions (trial_conditions st) \<noteq> [])"

text \<open>
  One round of the fetch loop seen from outside: the parameters of the request it
  sends, and the network after that request.
\<close>

definition first_params :: "params \<Rightarrow> pystr option \<Rightarrow> params" where
  "first_params ps tok = (if truthy tok then ps\<lparr>param_pageToken := tok\<rparr> else ps)"

definition after_request :: "net \<Rightarrow> params \<Rightarrow> net" where
  "after_request w ps = w\<lparr>sent := sent w @ [\<lparr>url = base_url, query = ps\<rparr>]\<rparr>"

section \<open>Concrete inputs\<close>

text \<open>
  The patient and the trial of the end-to-end example of the specification, a second
  trial whose minimum age is the one character U+00B2 (superscript two), and a third
  one without eligibility rules.
\<close>

definition patient_P1 :: patient_row where
  "patient_P1 = \<lparr>AGE = 45, GENDER = str ''F'', CONDITION_LIST = Some (PyList [str ''Diabetes''])\<rparr>"

definition patient_nan :: patient_row where
  "patient_nan = \<lparr>AGE = 45, GENDER = str ''F'', CONDITION_LIST = Some NotAList\<rparr>"

definition rule_18_65_female :: eligibility_module where
  "rule_18_65_female =
     \<lparr>minimumAge = Some (str ''18 Years''), maximumAge = Some (str ''65 Years''),
      sex = Some (str ''FEMALE'')\<rparr>"

definition trial_T1 :: study where
  "trial_T1 =
     \<lparr>protocolSection = Some
        \<lparr>identificationModule = Some \<lparr>nctId = Some (str ''NCT1''), briefTitle = Some (str ''T1'')\<rparr>,
         eligibilityModule = Some
           \<lparr>minimumAge = Some (str ''18 Years''), maximumAge = Some (str ''70 Years''),
            sex = Some (str ''FEMALE'')\<rparr>,
         conditionsModule = Some \<lparr>conditions = Some [str ''Diabetes'', str ''Obesity'']\<rparr>\<rparr>\<rparr>"

definition trial_T2 :: study where
  "trial_T2 =
     \<lparr>protocolSection = Some
        \<lparr>identificationModule = Some \<lparr>nctId = Some (str ''NCT2''), briefTitle = Some (str ''T2'')\<rparr>,
         eligibilityModule = Some \<lparr>minimumAge = Some [0xB2], maximumAge = None, sex = None\<rparr>,
         conditionsModule = Some \<lparr>conditions = Some [str ''Diabetes'']\<rparr>\<rparr>\<rparr>"

definition trial_T3 :: study where
  "trial_T3 =
     \<lparr>protocolSection = Some
        \<lparr>identificationModule = Some \<lparr>nctId = Some (str ''NCT3''), briefTitle = Some (str ''T3'')\<rparr>,
         eligibilityModule = None,
         conditionsModule = Some \<lparr>conditions = Some [str ''DIABETES'']\<rparr>\<rparr>\<rparr>"

text \<open>
  Four registries, none with a request sent yet: one that answers every request with the
  same single page; one whose first page names the next page \<open>T2\<close> and whose second page
  is the last; one whose every page names a next page; and one that answers the second
  request with the status 500.
\<close>

definition one_page :: "study list \<Rightarrow> net" where
  "one_page sts =
     \<lparr>replies = (\<lambda>k. Response 200 (Json \<lparr>studies = Some sts, nextPageToken = None\<rparr>)), sent = []\<rparr>"

definition two_pages :: net where
  "two_pages =
     \<lparr>replies = (\<lambda>k. if k = 0
                      then Response 200 (Json \<lparr>studies = Some [trial_T1], nextPageToken = Some (str ''T2'')\<rparr>)
                      else Response 200 (Json \<lparr>studies = Some [trial_T3], nextPageToken = None\<rparr>)),
      sent = []\<rparr>"

definition endless :: net where
  "endless =
     \<lparr>replies = (\<lambda>k. Response 200 (Json \<lparr>studies = Some [trial_T1], nextPageToken = Some (str ''T'')\<rparr>)),
      sent = []\<rparr>"



definition rule_99_superscript :: eligibility_module where
  "rule_99_superscript =
     \<lparr>minimumAge = Some (str ''99 Years''), maximumAge = Some [0xB2], sex = None\<rparr>"

section \<open>The fetch loop\<close>

lemma fetch_pages_unfold:
  "fetch_pages ps tok acc w =
     (case reply_page (replies w (length (sent w))) of
        None \<Rightarrow> Some (Inl (reply_error (replies w (length (sent w)))),
                       after_request w (first_params ps tok))
      | Some data \<Rightarrow>
          if truthy (nextPageToken data)
          then fetch_pages (first_params ps tok) (nextPageToken data)
                 (acc @ dict_get (studies data) []) (after_request w (first_params ps tok))
          else Some (Inr (acc @ dict_get (studies data) []), after_request w (first_params ps tok)))"
proof (cases "replies w (length (sent w))")
  case Unreachable
  then show ?thesis
    by (subst fetch_pages.simps)
       (simp add: reply_page_def reply_error_def requests_get_def after_request_def
          first_params_def Let_def)
next
  case (Response status b)
  then show ?thesis
    by (subst fetch_pages.simps, cases b)
       (simp_all add: reply_page_def reply_error_def requests_get_def raise_for_status_def
          after_request_def first_params_def Let_def)
qed

lemma fetch_pages_last:
  assumes "last_at w 0"
  shows "fetch_pages ps tok acc w =
    Some (Inr (acc @ dict_get (studies (page_at w 0)) []), after_request w (first_params ps tok))"
  using assms
  by (subst fetch_pages_unfold) (simp add: last_at_def page_at_def split: option.splits)

lemma fetch_pages_more:
  assumes "more_at w 0"
  shows "fetch_pages ps tok acc w =
    fetch_pages (first_params ps tok) (nextPageToken (page_at w 0))
      (acc @ dict_get (studies (page_at w 0)) []) (after_request w (first_params ps tok))"
  using assms
  by (subst fetch_pages_unfold) (simp add: more_at_def page_at_def split: option.splits)


lemma after_request_shift:
  "more_at (after_request w ps) k = more_at w (Suc k)"
  "last_at (after_request w ps) k = last_at w (Suc k)"
  "failed_at (after_request w ps) k = failed_at w (Suc k)"
  "page_at (after_request w ps) k = page_at w (Suc k)"
  "replies (after_request w ps) = replies w"
  "length (sent (after_request w ps)) = Suc (length (sent w))"
  by (simp_all add: after_request_def more_at_def last_at_def failed_at_def page_at_def)

lemma map_upt_Suc0: "map f [0..<Suc n] = f 0 # map (\<lambda>k. f (Suc k)) [0..<n]"
  by (simp add: map_upt_Suc del: upt_Suc)

lemma pages_studies_Suc:
  "pages_studies w (Suc n) = dict_get (studies (page_at w 0)) [] @ pages_studies (after_request w ps) n"
  unfolding pages_studies_def
  by (subst map_upt_Suc0) (simp add: after_request_shift del: upt_Suc)

lemma page_requests_Suc:
  "page_requests ps w (Suc n) =
     \<lparr>url = base_url, query = ps\<rparr> #
     page_requests (ps\<lparr>param_pageToken := nextPageToken (page_at w 0)\<rparr>) (after_request w ps') n"
  unfolding page_requests_def
  by (subst map_upt_Suc0) (simp add: after_request_shift del: upt_Suc)

lemma first_params_truthy: "truthy tok \<Longrightarrow> first_params ps tok = ps\<lparr>param_pageToken := tok\<rparr>"
  by (simp add: first_params_def)

lemma sent_after_request:
  "after_request w ps\<lparr>sent := sent (after_request w ps) @ rs\<rparr> = w\<lparr>sent := sent w @ \<lparr>url = base_url, query = ps\<rparr> # rs\<rparr>"
  by (simp add: after_request_def)

lemma fetch_pages_returns:
  assumes "\<forall>k<n. more_at w k" and "last_at w n"
  shows "fetch_pages ps tok acc w =
    Some (Inr (acc @ pages_studies w n), w\<lparr>sent := sent w @ page_requests (first_params ps tok) w n\<rparr>)"
  using assms
proof (induction n arbitrary: ps tok acc w)
  case 0
  then show ?case
    by (simp add: fetch_pages_last pages_studies_def page_requests_def after_request_def)
next
  case (Suc n)
  let ?ps = "first_params ps tok"
  let ?w = "after_request w ?ps"
  let ?tok = "nextPageToken (page_at w 0)"
  from Suc.prems have m0: "more_at w 0" by simp
  then have tk: "truthy ?tok"
    by (simp add: more_at_def page_at_def split: option.splits)
  from Suc.prems have "\<forall>k<n. more_at ?w k" and "last_at ?w n"
    by (simp_all add: after_request_shift)
  then have "fetch_pages ?ps ?tok (acc @ dict_get (studies (page_at w 0)) []) ?w =
      Some (Inr ((acc @ dict_get (studies (page_at w 0)) []) @ pages_studies ?w n),
            ?w\<lparr>sent := sent ?w @ page_requests (first_params ?ps ?tok) ?w n\<rparr>)"
    by (rule Suc.IH)
  then show ?case
    by (simp add: fetch_pages_more [OF m0] pages_studies_Suc [of w n ?ps]
        page_requests_Suc [of ?ps w n ?ps] first_params_truthy [OF tk] sent_after_request)
qed


lemma fetch_pages_diverges_aux:
  assumes run: "fetch_pages ps0 tok0 acc0 w0 = Some y0"
  shows "\<exists>k. \<not> more_at w0 k"
proof (rule fetch_pages.raw_induct [where P = "\<lambda>ps tok acc w y. \<exists>k. \<not> more_at w k", OF _ run],
    goal_cases)
  case (1 loop ps tok acc w y)
  show ?case
  proof (cases "more_at w 0")
    case False
    then show ?thesis by blast
  next
    case True
    let ?ps = "first_params ps tok"
    let ?w = "after_request w ?ps"
    from True obtain status data where
      r: "replies w (length (sent w)) = Response status (Json data)"
      and s: "\<not> (400 \<le> status \<and> status < 600)" and t: "truthy (nextPageToken data)"
      by (auto simp add: more_at_def reply_page_def split: option.splits reply.splits body.splits if_splits)
    from 1(2) r s t have "loop ?ps (nextPageToken data) (acc @ dict_get (studies data) []) ?w = Some y"
      by (simp add: requests_get_def raise_for_status_def after_request_def first_params_def Let_def)
    then have "\<exists>k. \<not> more_at ?w k" by (rule 1(1))
    then show ?thesis by (auto simp add: after_request_shift)
  qed
qed

lemma fetch_pages_diverges:
  assumes "\<forall>k. more_at w k"
  shows "fetch_pages ps tok acc w = None"
  using assms fetch_pages_diverges_aux [of ps tok acc w] by (cases "fetch_pages ps tok acc w") auto


lemmas run_simps = str_def split_def isspace_def cpython_def py_int_def cpython_int_def
  isdigit_cp_def isdecimal_cp_def lower_cp_def upper_cp_def decimal_value_def
  parse_age_string_def dict_get_def

lemma intersect_loop_filter:
  "intersect_loop B S cs acc = acc @ filter (\<lambda>c. str_lower B c \<in> S) cs"
  by (induction cs arbitrary: acc) simp_all

lemma first_params_None: "first_params ps None = ps"
  by (simp add: first_params_def truthy_def)


lemma match_trials_Inr:
  assumes "match_trials B age gender pcs trials matched = Inr ms"
  shows "ms = matched @ map (make_match B pcs) (filter (is_match B age gender pcs) trials)"
  using assms
proof (induction trials arbitrary: matched)
  case Nil
  then show ?case by simp
next
  case (Cons st rest)
  show ?case
  proof (cases "meets_structured_criteria B age gender (elig_mod st)")
    case (Inl e)
    with Cons.prems show ?thesis by simp
  next
    case (Inr ok)
    show ?thesis
    proof (cases "ok \<and> intersecting_conds B pcs (trial_conditions st) \<noteq> []")
      case True
      with Inr Cons.prems
      have "match_trials B age gender pcs rest (matched @ [make_match B pcs st]) = Inr ms"
        by simp
      from Cons.IH [OF this] True Inr show ?thesis by (simp add: is_match_def)
    next
      case False
      with Inr Cons.prems have "match_trials B age gender pcs rest matched = Inr ms"
        by (auto split: if_splits)
      from Cons.IH [OF this] False Inr show ?thesis by (auto simp add: is_match_def)
    qed
  qed
qed

lemma match_trials_total:
  assumes "\<forall>st\<in>set trials. \<exists>ok. meets_structured_criteria B age gender (elig_mod st) = Inr ok"
  shows "match_trials B age gender pcs trials matched =
         Inr (matched @ map (make_match B pcs) (filter (is_match B age gender pcs) trials))"
  using assms
proof (induction trials arbitrary: matched)
  case Nil
  then show ?case by simp
next
  case (Cons st rest)
  then show ?case by (auto simp add: is_match_def)
qed

text \<open>
  What \<open>match_patient_to_trials\<close> returns when the fetch returns and the structured
  criteria of every fetched trial evaluate: one match for each trial that passes them and
  overlaps, in the order of the fetch.
\<close>

lemma match_patient_to_trials_filter:
  assumes "CONDITION_LIST row = Some (PyList pcs)" and "pcs \<noteq> []"
    and "fetch_ctg_studies (hd pcs) (AGE row) (dict_get statuses default_statuses) 20 w =
           Some (Inr trials, w')"
    and "\<forall>st\<in>set trials. \<exists>ok.
           meets_structured_criteria B (AGE row) (GENDER row) (elig_mod st) = Inr ok"
  shows "match_patient_to_trials B row statuses w =
           Some (Inr (map (make_match B pcs)
                   (filter (is_match B (AGE row) (GENDER row) pcs) trials)), w')"
proof -
  from assms(2) obtain c cs where c: "pcs = c # cs" by (cases pcs) auto
  from match_trials_total [OF assms(4), of pcs "[]"] assms(1,3) c show ?thesis
    by (simp add: match_patient_to_trials_def dict_get_def)
qed

text \<open>
  The parser as a function of the tokens: the first token that \<open>isdigit\<close> accepts
  decides, and \<open>int\<close> may refuse it.
\<close>

lemma parse_age_parts_find:
  "parse_age_parts B parts =
     (case find (str_isdigit B) parts of None \<Rightarrow> Inr 0 | Some p \<Rightarrow> py_int B p)"
  by (induction parts) simp_all

lemma parse_age_string_empty: "parse_age_string B [] = Inr 0"
  by (simp add: parse_age_string_def)

text \<open>
  The inputs that the specification names.
\<close>

lemma parse_age_string_examples:
  "parse_age_string cpython [] = Inr 0"
  "parse_age_string cpython (str ''N/A'') = Inr 0"
  "parse_age_string cpython (str ''n/a therapy'') = Inr 0"
  "parse_age_string cpython (str ''18 Years'') = Inr 18"
  "parse_age_string cpython (str ''abc'') = Inr 0"
  by (simp_all add: run_simps)

text \<open>
  The parser raises nothing under built-ins whose \<open>int\<close> accepts every token that
  \<open>isdigit\<close> accepts.
\<close>

lemma parse_age_string_returns:
  assumes "\<And>p. str_isdigit B p \<Longrightarrow> str_int B p \<noteq> None"
  shows "\<exists>n. parse_age_string B age_str = Inr n"
proof (cases "find (str_isdigit B) (split age_str)")
  case None
  then show ?thesis by (simp add: parse_age_string_def parse_age_parts_find)
next
  case (Some p)
  then have "str_isdigit B p" by (auto simp add: find_Some_iff)
  from assms [OF this] obtain n where "str_int B p = Some n" by auto
  with Some show ?thesis by (simp add: parse_age_string_def parse_age_parts_find py_int_def)
qed

text \<open>
  A patient with an empty condition list: the empty list is returned and no request is sent.
\<close>

lemma match_patient_to_trials_empty:
  "CONDITION_LIST row = Some (PyList []) \<Longrightarrow>
   match_patient_to_trials B row statuses w = Some (Inr [], w)"
  by (simp add: match_patient_to_trials_def dict_get_def)

lemma replace_escape: "replace s 0x22 [0x5C, 0x22] = escape_quotes s"
  by (induction s) (simp_all add: escape_quotes_def)

subsection \<open>The concrete inputs evaluated\<close>

lemma fetch_one_page:
  "fetch_ctg_studies c a sl psz (one_page sts) =
     Some (Inr sts, after_request (one_page sts) (query_params c a sl psz))"
proof -
  have "last_at (one_page sts) 0"
    by (simp add: last_at_def one_page_def reply_page_def truthy_def)
  from fetch_pages_last [OF this, of "query_params c a sl psz" None "[]"] show ?thesis
    by (simp add: fetch_ctg_studies_def first_params_None page_at_def one_page_def
        reply_page_def dict_get_def)
qed

lemma meets_T1: "meets_structured_criteria cpython 45 (str ''F'') (elig_mod trial_T1) = Inr True"
  by (simp add: meets_structured_criteria_def elig_mod_def trial_T1_def run_simps)

lemma meets_T2: "meets_structured_criteria cpython 45 (str ''F'') (elig_mod trial_T2) = Inl ValueError"
  by (simp add: meets_structured_criteria_def elig_mod_def trial_T2_def run_simps)

lemma conds_T1:
  "intersecting_conds cpython [str ''Diabetes''] (trial_conditions trial_T1) = [str ''Diabetes'']"
  by (simp add: intersecting_conds_def trial_conditions_def cond_mod_def trial_T1_def run_simps)

lemma match_T1:
  "make_match cpython [str ''Diabetes''] trial_T1 =
     \<lparr>trialId = str ''NCT1'', trialName = str ''T1'', eligibilityCriteriaMet = [str ''Diabetes'']\<rparr>"
  by (simp add: make_match_def conds_T1) (simp add: ident_mod_def trial_T1_def dict_get_def)

text \<open>
  The end-to-end example of the specification: patient P1 against a registry that
  returns the trial NCT1.
\<close>

lemma end_to_end:
  "match_patient_to_trials cpython patient_P1 None (one_page [trial_T1]) =
     Some (Inr [\<lparr>trialId = str ''NCT1'', trialName = str ''T1'',
                  eligibilityCriteriaMet = [str ''Diabetes'']\<rparr>],
           after_request (one_page [trial_T1])
             (query_params (str ''Diabetes'') 45 default_statuses 20))"
  by (simp add: match_patient_to_trials_def patient_P1_def fetch_one_page meets_T1 conds_T1
      match_T1 dict_get_def)

section \<open>The claims\<close>

text \<open>
  C1. \<open>match_patient_to_trials\<close> is claimed to return, for every patient with a
  non-empty condition list, one match for each fetched trial that passes the structured
  criteria and overlaps with the patient's conditions. Patient P1 and a registry that
  returns the trials NCT1 and NCT2: NCT1 passes the criteria and shares the condition
  Diabetes, yet no match list is returned, because the minimum age of NCT2, the
  superscript two, makes \<open>parse_age_string\<close> raise \<open>ValueError\<close>, which leaves the
  function. With NCT1 alone the match is returned (\<open>end_to_end\<close>), the claimed list
  is returned whenever the criteria of every fetched trial evaluate
  (\<open>match_patient_to_trials_filter\<close>), and a patient without conditions gets the empty
  list without a request (\<open>match_patient_to_trials_empty\<close>).
\<close>

theorem match_patient_to_trials_raises_on_superscript_bound:
  "is_match cpython 45 (str ''F'') [str ''Diabetes''] trial_T1 \<and>
   match_patient_to_trials cpython patient_P1 None (one_page [trial_T1, trial_T2]) =
     Some (Inl ValueError,
           after_request (one_page [trial_T1, trial_T2])
             (query_params (str ''Diabetes'') 45 default_statuses 20))"
  by (simp add: match_patient_to_trials_def patient_P1_def fetch_one_page meets_T1 meets_T2
      conds_T1 is_match_def dict_get_def)

text \<open>
  C2. \<open>parse_age_string\<close> is claimed never to raise, because \<open>int\<close> accepts every token
  that \<open>isdigit\<close> accepts. The string of the one character U+00B2 (superscript two):
  \<open>isdigit\<close> accepts it, \<open>int\<close> refuses it, and \<open>parse_age_string\<close> raises \<open>ValueError\<close>.
\<close>

theorem parse_age_string_raises_on_superscript:
  "str_isdigit cpython [0xB2] \<and> str_int cpython [0xB2] = None \<and>
   parse_age_string cpython [0xB2] = Inl ValueError"
  by (simp add: run_simps)

text \<open>
  C3. If the pages 0 to \<open>n - 1\<close> that the registry delivers each name a next page and
  page \<open>n\<close> names none, \<open>fetch_ctg_studies\<close> returns: its result is the studies of the
  pages 0 to \<open>n\<close> in order, and it has sent \<open>n + 1\<close> requests, the first without a page
  token and each later one with the token of the page before. If every page names a
  next page, \<open>fetch_ctg_studies\<close> does not return.
\<close>

theorem fetch_ctg_studies_pagination:
  "((\<forall>k<n. more_at w k) \<and> last_at w n \<longrightarrow>
      fetch_ctg_studies c a sl psz w =
        Some (Inr (pages_studies w n),
              w\<lparr>sent := sent w @ page_requests (query_params c a sl psz) w n\<rparr>)) \<and>
   ((\<forall>k. more_at w k) \<longrightarrow> fetch_ctg_studies c a sl psz w = None)"
proof (intro conjI impI)
  assume "(\<forall>k<n. more_at w k) \<and> last_at w n"
  then have "\<forall>k<n. more_at w k" and "last_at w n" by simp_all
  from fetch_pages_returns [OF this, of "query_params c a sl psz" None "[]"]
  show "fetch_ctg_studies c a sl psz w =
        Some (Inr (pages_studies w n),
              w\<lparr>sent := sent w @ page_requests (query_params c a sl psz) w n\<rparr>)"
    by (simp add: fetch_ctg_studies_def first_params_None)
next
  assume "\<forall>k. more_at w k"
  then show "fetch_ctg_studies c a sl psz w = None"
    by (simp add: fetch_ctg_studies_def fetch_pages_diverges)
qed

theorem fetch_ctg_studies_pagination_witness:
  "map_option fst (fetch_ctg_studies (str ''Diabetes'') 45 default_statuses 20 two_pages) =
     Some (Inr [trial_T1, trial_T3]) \<and>
   map_option (map (param_pageToken \<circ> query) \<circ> sent \<circ> snd)
     (fetch_ctg_studies (str ''Diabetes'') 45 default_statuses 20 two_pages) =
     Some [None, Some (str ''T2'')] \<and>
   fetch_ctg_studies (str ''Diabetes'') 45 default_statuses 20 endless = None"
proof -
  have more: "more_at two_pages 0"
    by (simp add: more_at_def two_pages_def reply_page_def truthy_def str_def)
  have last: "last_at two_pages 1"
    by (simp add: last_at_def two_pages_def reply_page_def truthy_def)
  have all: "\<forall>k. more_at endless k"
    by (simp add: more_at_def endless_def reply_page_def truthy_def str_def)
  have st: "pages_studies two_pages 1 = [trial_T1, trial_T3]"
    by (simp add: pages_studies_def page_at_def two_pages_def reply_page_def dict_get_def)
  have rq: "map (param_pageToken \<circ> query)
      (page_requests (query_params (str ''Diabetes'') 45 default_statuses 20) two_pages 1) =
      [None, Some (str ''T2'')]"
    by (simp add: page_requests_def page_at_def two_pages_def reply_page_def query_params_def
        Let_def)
  from more last all st rq
    fetch_ctg_studies_pagination [of 1 two_pages "str ''Diabetes''" 45 default_statuses 20]
    fetch_ctg_studies_pagination [of 0 endless "str ''Diabetes''" 45 default_statuses 20]
  show ?thesis
    by (simp add: two_pages_def)
qed




text \<open>
  The decision of \<open>meets_structured_criteria\<close> where both bounds parse, to \<open>m\<close> and
  \<open>M\<close>: four tests in this order. False if \<open>m\<close> is not 0 and the age is below \<open>m\<close>;
  false if \<open>M\<close> is not 0 and the age is above \<open>M\<close>; false if the rule's sex is FEMALE
  and the upper-cased patient sex is neither FEMALE nor F; false if the rule's sex is
  MALE and the upper-cased patient sex is neither MALE nor M; true otherwise. An absent
  or empty age text parses to 0, and a bound of 0 rejects no age.
\<close>

lemma meets_structured_criteria_rules:
  assumes "parse_age_string B (dict_get (minimumAge rule) []) = Inr m"
    and "parse_age_string B (dict_get (maximumAge rule) []) = Inr M"
  shows "meets_structured_criteria B age gender rule =
           Inr (if m \<noteq> 0 \<and> age < m then False
                else if M \<noteq> 0 \<and> age > M then False
                else if dict_get (sex rule) (str ''ALL'') = str ''FEMALE'' \<and>
                        str_upper B gender \<notin> {str ''FEMALE'', str ''F''} then False
                else if dict_get (sex rule) (str ''ALL'') = str ''MALE'' \<and>
                        str_upper B gender \<notin> {str ''MALE'', str ''M''} then False
                else True) \<and>
         (minimumAge rule = None \<or> minimumAge rule = Some [] \<longrightarrow> m = 0) \<and>
         (maximumAge rule = None \<or> maximumAge rule = Some [] \<longrightarrow> M = 0)"
proof -
  from assms have
    "meets_structured_criteria B age gender rule =
       Inr (if m \<noteq> 0 \<and> age < m then False
            else if M \<noteq> 0 \<and> age > M then False
            else if dict_get (sex rule) (str ''ALL'') = str ''FEMALE'' \<and>
                    str_upper B gender \<notin> {str ''FEMALE'', str ''F''} then False
            else if dict_get (sex rule) (str ''ALL'') = str ''MALE'' \<and>
                    str_upper B gender \<notin> {str ''MALE'', str ''M''} then False
            else True)"
    by (simp add: meets_structured_criteria_def Let_def)
  moreover have "dict_get (minimumAge rule) [] = [] \<longrightarrow> m = 0"
    using assms(1) by (clarsimp simp add: parse_age_string_empty)
  then have "minimumAge rule = None \<or> minimumAge rule = Some [] \<longrightarrow> m = 0"
    by (auto simp add: dict_get_def)
  moreover have "dict_get (maximumAge rule) [] = [] \<longrightarrow> M = 0"
    using assms(2) by (clarsimp simp add: parse_age_string_empty)
  then have "maximumAge rule = None \<or> maximumAge rule = Some [] \<longrightarrow> M = 0"
    by (auto simp add: dict_get_def)
  ultimately show ?thesis by blast
qed

lemma meets_structured_criteria_rules_examples:
  "meets_structured_criteria cpython 17 (str ''F'') rule_18_65_female = Inr False \<and>
   meets_structured_criteria cpython 30 (str ''MALE'') rule_18_65_female = Inr False \<and>
   meets_structured_criteria cpython 30 (str ''F'') rule_18_65_female = Inr True \<and>
   meets_structured_criteria cpython 30 (str ''f'')
     \<lparr>minimumAge = None, maximumAge = Some [], sex = None\<rparr> = Inr True"
proof -
  have lo: "parse_age_string cpython (dict_get (minimumAge rule_18_65_female) []) = Inr 18"
    by (simp add: rule_18_65_female_def run_simps)
  have hi: "parse_age_string cpython (dict_get (maximumAge rule_18_65_female) []) = Inr 65"
    by (simp add: rule_18_65_female_def run_simps)
  have no_lo: "parse_age_string cpython
      (dict_get (minimumAge \<lparr>minimumAge = None, maximumAge = Some [], sex = None\<rparr>) []) = Inr 0"
    by (simp add: run_simps)
  have no_hi: "parse_age_string cpython
      (dict_get (maximumAge \<lparr>minimumAge = None, maximumAge = Some [], sex = None\<rparr>) []) = Inr 0"
    by (simp add: run_simps)
  from meets_structured_criteria_rules [OF lo hi, of 17 "str ''F''"]
    meets_structured_criteria_rules [OF lo hi, of 30 "str ''MALE''"]
    meets_structured_criteria_rules [OF lo hi, of 30 "str ''F''"]
    meets_structured_criteria_rules [OF no_lo no_hi, of 30 "str ''f''"]
  show ?thesis
    by (simp add: rule_18_65_female_def run_simps)
qed

text \<open>
  C5. \<open>meets_structured_criteria\<close> is claimed to decide by the four tests in order,
  the first being: false if the parsed minimum age is not 0 and the patient is younger.
  A patient of age 5 and the rule with the minimum age \<open>99 Years\<close> and the maximum age
  U+00B2: the minimum age parses to 99, so the first test gives false, but the code
  parses both bounds before any test, \<open>parse_age_string\<close> raises \<open>ValueError\<close> on the
  maximum age, and no verdict is returned. Where both bounds parse the verdict is the
  claimed one (\<open>meets_structured_criteria_rules\<close>).
\<close>

theorem meets_structured_criteria_raises_on_superscript_bound:
  "parse_age_string cpython (dict_get (minimumAge rule_99_superscript) []) = Inr 99 \<and>
   parse_age_string cpython (dict_get (maximumAge rule_99_superscript) []) = Inl ValueError \<and>
   meets_structured_criteria cpython 5 (str ''F'') rule_99_superscript = Inl ValueError"
  by (simp add: meets_structured_criteria_def rule_99_superscript_def run_simps)

text \<open>
  C6. The conditions that \<open>match_patient_to_trials\<close> collects for one trial are the
  trial's conditions filtered by the test that the lower-cased condition is the
  lower-cased form of some patient condition: the conditions that pass are kept as the
  trial writes them and in the trial's order, each occurrence on its own.
\<close>

theorem intersecting_conds_filter:
  "intersecting_conds B patient_conditions trial_conds =
     filter (\<lambda>c. str_lower B c \<in> set (map (str_lower B) patient_conditions)) trial_conds"
  by (simp add: intersecting_conds_def intersect_loop_filter)

theorem intersecting_conds_filter_witness:
  "intersecting_conds cpython [str ''Diabetes'', str ''Asthma'']
     [str ''DIABETES'', str ''Hypertension'', str ''diabetes''] =
   [str ''DIABETES'', str ''diabetes'']"
  using intersecting_conds_filter [of cpython "[str ''Diabetes'', str ''Asthma'']"
      "[str ''DIABETES'', str ''Hypertension'', str ''diabetes'']"]
  by (simp add: run_simps)

text \<open>
  C7. A string with a whitespace character or one of the brackets \<open>( ) { } [ ]\<close> is
  returned by \<open>quote_for_essie\<close> between double quotes, each double quote inside it
  replaced by a backslash and a double quote; every other string, the empty one
  included, is returned as it is.
\<close>

theorem quote_for_essie_escapes:
  "quote_for_essie s =
     (if \<exists>c\<in>set s. isspace c \<or> c \<in> set (str ''(){}[]'')
      then [0x22] @ escape_quotes s @ [0x22] else s) \<and>
   quote_for_essie [] = []"
  by (simp add: quote_for_essie_def replace_escape list_ex_iff in_essie_class_def)

theorem quote_for_essie_escapes_witness:
  "quote_for_essie (str ''diabetes'') = str ''diabetes'' \<and>
   quote_for_essie (str ''type 2 diabetes'') = [0x22] @ str ''type 2 diabetes'' @ [0x22] \<and>
   quote_for_essie (str ''foo '' @ [0x22] @ str ''bar'' @ [0x22]) =
     [0x22] @ str ''foo '' @ [0x5C, 0x22] @ str ''bar'' @ [0x5C, 0x22] @ [0x22]"
  using quote_for_essie_escapes [of "str ''diabetes''"]
    quote_for_essie_escapes [of "str ''type 2 diabetes''"]
    quote_for_essie_escapes [of "str ''foo '' @ [0x22] @ str ''bar'' @ [0x22]"]
  by (simp add: str_def isspace_def escape_quotes_def)

text \<open>
  C8. \<open>parse_age_string\<close> is claimed to return the value of the first token made of
  decimal digits only, or 0 without such a token. The string of U+00B2, a space and
  \<open>18\<close>: its first token made of decimal digits only is \<open>18\<close>, but the loop stops at the
  token U+00B2, which \<open>isdigit\<close> accepts and \<open>int\<close> refuses, and raises \<open>ValueError\<close>.
  (The tokens are decided as \<open>parse_age_parts_find\<close> says.)
\<close>

theorem parse_age_string_raises_before_decimal_token:
  "split ([0xB2] @ str '' 18'') = [[0xB2], str ''18''] \<and>
   str_int cpython (str ''18'') = Some 18 \<and>
   parse_age_string cpython ([0xB2] @ str '' 18'') = Inl ValueError"
  by (simp add: run_simps)

text \<open>
  C9. Every match that \<open>match_patient_to_trials\<close> returns has a non-empty list of
  conditions met, and it is the match of a fetched trial whose conditions overlap with
  the patient's: a trial without overlap yields no match.
\<close>

theorem match_conditions_nonempty:
  assumes "match_patient_to_trials B row statuses w = Some (Inr ms, w')" and "m \<in> set ms"
  shows "eligibilityCriteriaMet m \<noteq> [] \<and>
         (\<exists>pcs trials.
            CONDITION_LIST row = Some (PyList pcs) \<and> pcs \<noteq> [] \<and>
            fetch_ctg_studies (hd pcs) (AGE row) (dict_get statuses default_statuses) 20 w =
              Some (Inr trials, w') \<and>
            (\<exists>st\<in>set trials.
               m = make_match B pcs st \<and>
               intersecting_conds B pcs (trial_conditions st) \<noteq> []))"
proof -
  from assms obtain pcs where pcs: "CONDITION_LIST row = Some (PyList pcs)" "pcs \<noteq> []"
    by (auto simp add: match_patient_to_trials_def dict_get_def Let_def
        split: option.splits cell.splits list.splits)
  with assms(1) obtain trials where
    f: "fetch_ctg_studies (hd pcs) (AGE row) (dict_get statuses default_statuses) 20 w =
          Some (Inr trials, w')"
    and mt: "match_trials B (AGE row) (GENDER row) pcs trials [] = Inr ms"
    by (auto simp add: match_patient_to_trials_def dict_get_def Let_def
        split: option.splits list.splits sum.splits prod.splits)
  from match_trials_Inr [OF mt] assms(2) obtain st where
    st: "st \<in> set trials" "m = make_match B pcs st"
        "intersecting_conds B pcs (trial_conditions st) \<noteq> []"
    by (auto simp add: is_match_def)
  then have "eligibilityCriteriaMet m \<noteq> []" by (simp add: make_match_def)
  with pcs f st show ?thesis by blast
qed

theorem match_conditions_nonempty_witness:
  "eligibilityCriteriaMet
     \<lparr>trialId = str ''NCT1'', trialName = str ''T1'',
      eligibilityCriteriaMet = [str ''Diabetes'']\<rparr> \<noteq> []"
  using match_conditions_nonempty [OF end_to_end,
      of "\<lparr>trialId = str ''NCT1'', trialName = str ''T1'',
           eligibilityCriteriaMet = [str ''Diabetes'']\<rparr>"]
  by simp

text \<open>
  C10. A patient row without the cell \<open>CONDITION_LIST\<close>, or with a value in it that is
  no list, is treated as a patient without conditions: \<open>match_patient_to_trials\<close>
  returns the empty list, raises nothing and sends no request.
\<close>

theorem match_patient_to_trials_no_condition_list:
  assumes "CONDITION_LIST row = None \<or> CONDITION_LIST row = Some NotAList"
  shows "match_patient_to_trials B row statuses w = Some (Inr [], w)"
  using assms by (auto simp add: match_patient_to_trials_def dict_get_def)

theorem match_patient_to_trials_no_condition_list_witness:
  "match_patient_to_trials cpython patient_nan None (one_page [trial_T1]) =
     Some (Inr [], one_page [trial_T1]) \<and>
   sent (one_page [trial_T1]) = []"
proof -
  have "CONDITION_LIST patient_nan = None \<or> CONDITION_LIST patient_nan = Some NotAList"
    by (simp add: patient_nan_def)
  from match_patient_to_trials_no_condition_list [OF this, of cpython None "one_page [trial_T1]"]
  show ?thesis by (simp add: one_page_def)
qed

end
